theory Spec2Isabelle
  imports Complex_Main "HOL-Library.Word" "HOL-Library.Multiset" "HOL-Library.AList"
    "HOL-Library.Monad_Syntax"
begin

unbundle bit_operations_syntax

section \<open>Data model (game.ts)\<close>

text \<open>
  Number conventions. JavaScript numbers are doubles. The counters of a game state
  (\<open>combo\<close>, \<open>powerupCycle\<close>, the inventory counts, slot ids) only ever hold natural numbers
  and are modelled as \<open>nat\<close>; ranks and the score are \<open>int\<close>; the combo multiplier is a
  \<open>real\<close> (its values are halves, exact in a double). The 32-bit operators of the seeded
  generator (\<open>Math.imul\<close>, \<open>^\<close>, \<open>|\<close>, \<open><<\<close>, \<open>>>>\<close>) act on \<open>32 word\<close>. A thrown
  \<open>TypeError\<close> is the value \<open>None\<close> of an \<open>option\<close> result.
\<close>

datatype Suit = SuitH | SuitD | SuitC | SuitS

record Card =
  card_id :: string
  rank :: int
  suit :: Suit

record Slot =
  slot_id :: nat
  slot_row :: nat
  slot_x :: int
  slot_card :: "Card option"

datatype Powerup = Wild | Bomb | Rainbow

record Inventory =
  wild :: nat
  bomb :: nat
  rainbow :: nat

datatype GameStatus = Playing | Won | Lost

text \<open>A seed is a JavaScript string: a sequence of UTF-16 code units.\<close>

type_synonym seed = "16 word list"

record GameState =
  seed :: seed
  tableau :: "Slot list"
  stock :: "Card list"
  waste :: "Card list"
  hold :: "Card option"
  score :: int
  combo :: nat
  powerups :: Inventory
  activePowerup :: "Powerup option"
  powerupCycle :: nat
  wrapEnabled :: bool
  status :: GameStatus
  bonusAwarded :: bool

definition ROWS :: "(nat \<times> int list) list" where
  "ROWS =
    [(0, [4, 10, 16]),
     (1, [3, 5, 9, 11, 15, 17]),
     (2, [2, 4, 6, 8, 10, 12, 14, 16, 18]),
     (3, [1, 3, 5, 7, 9, 11, 13, 15, 17, 19])]"

definition POWERUP_ORDER :: "Powerup list" where
  "POWERUP_ORDER = [Wild, Bomb, Rainbow]"

definition BASE_POINTS :: nat where
  "BASE_POINTS = 100"

definition STOCK_BONUS :: nat where
  "STOCK_BONUS = 200"

subsection \<open>Layout graph\<close>

text \<open>\<open>buildLayout\<close>: the slots of all rows, numbered in order of creation.\<close>

definition buildLayout :: "Slot list" where
  "buildLayout =
    map (\<lambda>(i, r, x). \<lparr>slot_id = i, slot_row = r, slot_x = x, slot_card = None\<rparr>)
      (enumerate 0 (concat (map (\<lambda>(r, xs). map (\<lambda>x. (r, x)) xs) ROWS)))"

text \<open>
  The \<open>Map\<close> keyed by the string \<open>row:x\<close> is an association list keyed by the pair; the
  records \<open>parents\<close> and \<open>adjacency\<close> are association lists from slot id to id list.
\<close>

definition buildLookup :: "Slot list \<Rightarrow> ((nat \<times> int) \<times> nat) list" where
  "buildLookup layout =
    fold (\<lambda>slot m. AList.update (slot_row slot, slot_x slot) (slot_id slot) m) layout []"

text \<open>
  \<open>if (target !== undefined) parents[target].push(pid)\<close>. Every id of the lookup has an
  entry in \<open>parents\<close>, so the entry is always found.
\<close>

definition pushParent :: "nat option \<Rightarrow> nat \<Rightarrow> (nat \<times> nat list) list \<Rightarrow> (nat \<times> nat list) list" where
  "pushParent target pid parents =
    (case target of
       None \<Rightarrow> parents
     | Some t \<Rightarrow>
        (case map_of parents t of
           None \<Rightarrow> parents
         | Some ps \<Rightarrow> AList.update t (ps @ [pid]) parents))"

definition buildParents :: "Slot list \<Rightarrow> (nat \<times> nat list) list" where
  "buildParents layout =
    (let lookup = buildLookup layout;
         parents0 = fold (\<lambda>slot ps. AList.update (slot_id slot) [] ps) layout []
     in fold (\<lambda>slot ps.
          let childRow = slot_row slot + 1;
              leftId = map_of lookup (childRow, slot_x slot - 1);
              rightId = map_of lookup (childRow, slot_x slot + 1)
          in pushParent rightId (slot_id slot) (pushParent leftId (slot_id slot) ps))
        layout parents0)"

text \<open>A JavaScript \<open>Set\<close> keeps the first occurrence of each element, in insertion order.\<close>

definition setToArray :: "nat list \<Rightarrow> nat list" where
  "setToArray xs = rev (remdups (rev xs))"

definition optToList :: "nat option \<Rightarrow> nat list" where
  "optToList t = (case t of None \<Rightarrow> [] | Some i \<Rightarrow> [i])"

definition buildAdjacency :: "Slot list \<Rightarrow> (nat \<times> nat list) list \<Rightarrow> (nat \<times> nat list) list" where
  "buildAdjacency layout parents =
    (let lookup = buildLookup layout
     in fold (\<lambda>slot adj.
          let ps = (case map_of parents (slot_id slot) of None \<Rightarrow> [] | Some l \<Rightarrow> l);
              childRow = slot_row slot + 1;
              leftId = map_of lookup (childRow, slot_x slot - 1);
              rightId = map_of lookup (childRow, slot_x slot + 1)
          in AList.update (slot_id slot) (setToArray (ps @ optToList leftId @ optToList rightId)) adj)
        layout [])"

definition LAYOUT :: "Slot list" where
  "LAYOUT = buildLayout"

definition PARENTS :: "(nat \<times> nat list) list" where
  "PARENTS = buildParents LAYOUT"

definition ADJACENCY :: "(nat \<times> nat list) list" where
  "ADJACENCY = buildAdjacency LAYOUT PARENTS"

subsection \<open>Deck and seeded generator\<close>

text \<open>\<open>String(n)\<close> for a natural number.\<close>

fun natToString :: "nat \<Rightarrow> string" where
  "natToString n =
    (if n < 10 then [char_of (48 + n)]
     else natToString (n div 10) @ [char_of (48 + n mod 10)])"

declare natToString.simps [simp del]

definition suitLetter :: "Suit \<Rightarrow> char" where
  "suitLetter s = (case s of SuitH \<Rightarrow> CHR ''H'' | SuitD \<Rightarrow> CHR ''D'' | SuitC \<Rightarrow> CHR ''C'' | SuitS \<Rightarrow> CHR ''S'')"

definition mkCard :: "Suit \<Rightarrow> nat \<Rightarrow> Card" where
  "mkCard s r = \<lparr>card_id = suitLetter s # natToString r, rank = int r, suit = s\<rparr>"

definition createDeck :: "Card list" where
  "createDeck = concat (map (\<lambda>s. map (mkCard s) [1..<14]) [SuitH, SuitD, SuitC, SuitS])"

text \<open>
  \<open>xmur3\<close>: the hash \<open>h\<close> after the loop over the string, then one call of the returned
  closure (\<open>createRng\<close> calls it once; the result \<open>h >>> 0\<close> is the unsigned value).
\<close>

definition rotl13 :: "32 word \<Rightarrow> 32 word" where
  "rotl13 h = (push_bit 13 h) OR (drop_bit 19 h)"

definition xmur3_init :: "seed \<Rightarrow> 32 word" where
  "xmur3_init str =
    fold (\<lambda>c h. rotl13 ((h XOR ucast c) * 3432918353)) str (1779033703 XOR word_of_int (int (length str)))"

definition xmur3_next :: "32 word \<Rightarrow> 32 word" where
  "xmur3_next h0 =
    (let h1 = (h0 XOR drop_bit 16 h0) * 2246822507;
         h2 = (h1 XOR drop_bit 13 h1) * 3266489909
     in h2 XOR drop_bit 16 h2)"

text \<open>
  \<open>mulberry32\<close>: the closure variable \<open>a\<close> is a plain number, incremented without
  truncation, so it is an \<open>int\<close>; the 32-bit operators truncate it when they read it. One call
  returns \<open>u / 4294967296\<close>; the model returns the numerator \<open>u\<close> and the new \<open>a\<close>.
\<close>

definition mulberry32 :: "int \<Rightarrow> int \<times> int" where
  "mulberry32 a =
    (let a' = a + 0x6d2b79f5;
         t0 = (word_of_int a' :: 32 word);
         t1 = (t0 XOR drop_bit 15 t0) * (t0 OR 1);
         t2 = t1 XOR (t1 + (t1 XOR drop_bit 7 t1) * (t1 OR 61))
     in (uint (t2 XOR drop_bit 14 t2), a'))"

definition createRng :: "seed \<Rightarrow> int" where
  "createRng str = uint (xmur3_next (xmur3_init str))"

text \<open>
  \<open>Math.floor(rng() * (i + 1))\<close> with \<open>rng() = u / 2^32\<close>: the quotient and the product
  are exact in a double (\<open>u < 2^32\<close>, \<open>i + 1 \<le> 52\<close>), so the floor is the integer quotient.
\<close>

definition floorScaled :: "int \<Rightarrow> nat \<Rightarrow> nat" where
  "floorScaled u n = nat ((u * int n) div 4294967296)"

text \<open>
  One iteration of the loop of \<open>shuffle\<close> at index \<open>i\<close>, on the pair of the deck and
  the generator state; the loop runs \<open>i\<close> from \<open>deck.length - 1\<close> down to 1.
\<close>

definition shuffleStep :: "nat \<Rightarrow> Card list \<times> int \<Rightarrow> Card list \<times> int" where
  "shuffleStep i st =
    (let deck = fst st;
         r = mulberry32 (snd st);
         j = floorScaled (fst r) (i + 1);
         tmp = deck ! i
     in ((deck[i := deck ! j])[j := tmp], snd r))"

fun shuffleFrom :: "nat \<Rightarrow> Card list \<times> int \<Rightarrow> Card list \<times> int" where
  "shuffleFrom 0 st = st"
| "shuffleFrom (Suc k) st = shuffleFrom k (shuffleStep (Suc k) st)"

definition shuffle :: "Card list \<Rightarrow> int \<Rightarrow> Card list" where
  "shuffle deck a = fst (shuffleFrom (length deck - 1) (deck, a))"

definition emptyInventory :: Inventory where
  "emptyInventory = \<lparr>wild = 0, bomb = 0, rainbow = 0\<rparr>"

definition dealTableau :: "Card list \<Rightarrow> Slot list" where
  "dealTableau deck =
    map (\<lambda>(index, pos). pos\<lparr>slot_card := (if index < length deck then Some (deck ! index) else None)\<rparr>)
      (enumerate 0 LAYOUT)"

definition createGameState :: "seed \<Rightarrow> GameState" where
  "createGameState sd =
    (let deck = shuffle createDeck (createRng sd);
         tableau0 = dealTableau deck;
         stock0 = drop (length tableau0) deck;
         (stock1, waste1) = (if length stock0 > 0 then (butlast stock0, [last stock0]) else (stock0, []))
     in \<lparr>seed = sd, tableau = tableau0, stock = stock1, waste = waste1, hold = None,
         score = 0, combo = 0, powerups = emptyInventory, activePowerup = None,
         powerupCycle = 0, wrapEnabled = True, status = Playing, bonusAwarded = False\<rparr>)"

subsection \<open>Rules (game.ts)\<close>

definition isAdjacentRank :: "int \<Rightarrow> int \<Rightarrow> bool \<Rightarrow> bool" where
  "isAdjacentRank a b wrap =
    (if \<bar>a - b\<bar> = 1 then True
     else if \<not> wrap then False
     else (a = 1 \<and> b = 13) \<or> (a = 13 \<and> b = 1))"

text \<open>\<open>tableau[i]?.card\<close>: no card when the index is out of range.\<close>

definition cardAt :: "Slot list \<Rightarrow> nat \<Rightarrow> Card option" where
  "cardAt tab i = (if i < length tab then slot_card (tab ! i) else None)"

text \<open>
  \<open>isExposed\<close>: iterating \<open>PARENTS[slot.id]\<close> throws a TypeError (\<open>None\<close>) when the
  slot id has no entry in \<open>PARENTS\<close>.
\<close>

definition isExposed :: "Slot \<Rightarrow> Slot list \<Rightarrow> bool option" where
  "isExposed slot tab =
    (case slot_card slot of
       None \<Rightarrow> Some False
     | Some c \<Rightarrow>
        (case map_of PARENTS (slot_id slot) of
           None \<Rightarrow> None
         | Some parents \<Rightarrow> Some (\<not> list_ex (\<lambda>parentId. cardAt tab parentId \<noteq> None) parents)))"

fun exposedLoop :: "Slot list \<Rightarrow> Slot list \<Rightarrow> nat list option" where
  "exposedLoop [] tab = Some []"
| "exposedLoop (slot # rest) tab =
    do {
      e \<leftarrow> isExposed slot tab;
      ids \<leftarrow> exposedLoop rest tab;
      Some (if e then slot_id slot # ids else ids)
    }"

definition getExposedIds :: "Slot list \<Rightarrow> nat list option" where
  "getExposedIds tab = exposedLoop tab tab"

section \<open>Transitions (App.tsx)\<close>

text \<open>\<open>Math.round\<close> rounds to the nearest integer, halves upwards.\<close>

definition mathRound :: "real \<Rightarrow> int" where
  "mathRound r = \<lfloor>r + 1 / 2\<rfloor>"

definition getComboMultiplier :: "nat \<Rightarrow> real" where
  "getComboMultiplier c =
    (if c \<le> 0 then 1
     else let steps = \<lfloor>real c / 3\<rfloor> in 1 + min (real_of_int steps * 0.5) 2)"

definition countOf :: "Inventory \<Rightarrow> Powerup \<Rightarrow> nat" where
  "countOf ivt p = (case p of Wild \<Rightarrow> wild ivt | Bomb \<Rightarrow> bomb ivt | Rainbow \<Rightarrow> rainbow ivt)"

definition setCount :: "Powerup \<Rightarrow> nat \<Rightarrow> Inventory \<Rightarrow> Inventory" where
  "setCount p n ivt =
    (case p of Wild \<Rightarrow> ivt\<lparr>wild := n\<rparr> | Bomb \<Rightarrow> ivt\<lparr>bomb := n\<rparr> | Rainbow \<Rightarrow> ivt\<lparr>rainbow := n\<rparr>)"

text \<open>One iteration of the loop of \<open>grantPowerups\<close>, on the pair (inventory, cycle).\<close>

text \<open>\<open>inventory[powerup] += 1\<close>\<close>

definition addPowerup :: "Powerup \<Rightarrow> Inventory \<Rightarrow> Inventory" where
  "addPowerup p ivt = setCount p (countOf ivt p + 1) ivt"

definition grantStep :: "nat \<Rightarrow> Inventory \<times> nat \<Rightarrow> Inventory \<times> nat" where
  "grantStep c st =
    (let (ivt, nextCycle) = st
     in if c mod 3 = 0
        then (let powerup = POWERUP_ORDER ! (nextCycle mod length POWERUP_ORDER)
              in (addPowerup powerup ivt, nextCycle + 1))
        else (ivt, nextCycle))"

definition grantPowerups :: "nat \<Rightarrow> nat \<Rightarrow> Inventory \<Rightarrow> nat \<Rightarrow> Inventory \<times> nat" where
  "grantPowerups oldCombo newCombo ivt cycleIndex =
    fold grantStep [oldCombo + 1 ..< newCombo + 1] (ivt, cycleIndex)"

definition wasteTopOf :: "Card list \<Rightarrow> Card option" where
  "wasteTopOf ws = (if ws = [] then None else Some (last ws))"

text \<open>\<open>tableau.every((slot) => !slot.card)\<close>\<close>

definition tableauCleared :: "Slot list \<Rightarrow> bool" where
  "tableauCleared tab = list_all (\<lambda>slot. slot_card slot = None) tab"

definition evaluateState :: "GameState \<Rightarrow> GameState option" where
  "evaluateState st =
    (if status st \<noteq> Playing then Some st
     else if tableauCleared (tableau st) then
       (if \<not> bonusAwarded st
        then Some (st\<lparr>score := score st + int (length (stock st) * STOCK_BONUS),
                      status := Won, bonusAwarded := True\<rparr>)
        else Some (st\<lparr>status := Won\<rparr>))
     else if length (stock st) = 0 then
       do {
         exposedIds \<leftarrow> getExposedIds (tableau st);
         if length exposedIds = 0 then Some (st\<lparr>status := Lost\<rparr>)
         else
           (let hasPowerup = (activePowerup st \<noteq> None
                  \<or> wild (powerups st) + bomb (powerups st) + rainbow (powerups st) > 0);
                canPlay = (case wasteTopOf (waste st) of
                    None \<Rightarrow> False
                  | Some wasteTop \<Rightarrow>
                      list_ex (\<lambda>i. case cardAt (tableau st) i of
                          None \<Rightarrow> False
                        | Some c \<Rightarrow> isAdjacentRank (rank c) (rank wasteTop) (wrapEnabled st))
                        exposedIds)
            in if \<not> hasPowerup \<and> \<not> canPlay then Some (st\<lparr>status := Lost\<rparr>) else Some st)
       }
     else Some st)"

text \<open>\<open>if (powerupSpent) nextPowerups[powerupSpent] = Math.max(0, nextPowerups[powerupSpent] - 1)\<close>\<close>

definition spendPowerup :: "Powerup option \<Rightarrow> Inventory \<Rightarrow> Inventory" where
  "spendPowerup powerupSpent ivt =
    (case powerupSpent of None \<Rightarrow> ivt | Some p \<Rightarrow> setCount p (max 0 (countOf ivt p - 1)) ivt)"

record ClearResult =
  state :: GameState
  clearedCount :: nat

definition applyClear :: "GameState \<Rightarrow> nat list \<Rightarrow> Card option \<Rightarrow> Powerup option \<Rightarrow> ClearResult" where
  "applyClear prev clearedIds wasteCard powerupSpent =
    (case wasteCard of
       None \<Rightarrow> \<lparr>state = prev, clearedCount = 0\<rparr>
     | Some wc \<Rightarrow>
        (let nextTableau = map (\<lambda>slot. if slot_id slot \<in> set clearedIds
                                         then slot\<lparr>slot_card := None\<rparr> else slot) (tableau prev);
             cnt = length clearedIds;
             nextCombo = combo prev + cnt;
             scoreMultiplier = getComboMultiplier nextCombo;
             scoreGain = mathRound (real cnt * real BASE_POINTS * scoreMultiplier);
             nextPowerups = spendPowerup powerupSpent (powerups prev);
             (inventory, nextCycle) =
                 grantPowerups (combo prev) nextCombo nextPowerups (powerupCycle prev)
         in \<lparr>state = prev\<lparr>tableau := nextTableau, waste := waste prev @ [wc],
                  combo := nextCombo, score := score prev + scoreGain, powerups := inventory,
                  powerupCycle := nextCycle, activePowerup := None\<rparr>,
             clearedCount = cnt\<rparr>))"

text \<open>
  The updater functions passed to \<open>setGame\<close>, as functions from the previous state to the
  next one. \<open>commitState\<close> returns its second argument (or the first when both are the same
  object) and records the undo history, which is not part of the game state.
\<close>

definition handleCardClick :: "nat \<Rightarrow> GameState \<Rightarrow> GameState option" where
  "handleCardClick slotId prev =
    (if status prev \<noteq> Playing then Some prev
     else if \<not> slotId < length (tableau prev) then Some prev
     else
      (let slot = tableau prev ! slotId in
       case slot_card slot of
         None \<Rightarrow> Some prev
       | Some c \<Rightarrow>
          do {
            e \<leftarrow> isExposed slot (tableau prev);
            if \<not> e then Some prev
            else do {
              currentExposedIds \<leftarrow> getExposedIds (tableau prev);
              case activePowerup prev of
                None \<Rightarrow>
                  (case wasteTopOf (waste prev) of
                     None \<Rightarrow> Some prev
                   | Some currentWasteTop \<Rightarrow>
                       if \<not> isAdjacentRank (rank c) (rank currentWasteTop) (wrapEnabled prev)
                       then Some prev
                       else evaluateState (state (applyClear prev [slotId] (Some c) None)))
              | Some Wild \<Rightarrow>
                  if wild (powerups prev) \<le> 0 then Some prev
                  else evaluateState (state (applyClear prev [slotId] (Some c) (Some Wild)))
              | Some Bomb \<Rightarrow>
                  if bomb (powerups prev) \<le> 0 then Some prev
                  else
                    (case map_of ADJACENCY slotId of
                       None \<Rightarrow> None
                     | Some adj \<Rightarrow>
                        (let neighbors = filter (\<lambda>i. i \<in> set currentExposedIds) adj;
                             cleared = setToArray (slotId # neighbors)
                         in evaluateState (state (applyClear prev cleared (Some c) (Some Bomb)))))
              | Some Rainbow \<Rightarrow>
                  if rainbow (powerups prev) \<le> 0 then Some prev
                  else
                    (let cleared = filter (\<lambda>i. case cardAt (tableau prev) i of
                                               None \<Rightarrow> False
                                             | Some c' \<Rightarrow> rank c' = rank c) currentExposedIds
                     in evaluateState (state (applyClear prev cleared (Some c) (Some Rainbow))))
            }
          }))"

definition drawFromStock :: "GameState \<Rightarrow> GameState option" where
  "drawFromStock prev =
    (if status prev \<noteq> Playing then Some prev
     else if length (stock prev) = 0 then Some prev
     else evaluateState (prev\<lparr>stock := butlast (stock prev),
             waste := waste prev @ [last (stock prev)], combo := 0, activePowerup := None\<rparr>))"

definition useHold :: "GameState \<Rightarrow> GameState option" where
  "useHold prev =
    (if status prev \<noteq> Playing then Some prev
     else if length (waste prev) = 0 then Some prev
     else
      (let popped = butlast (waste prev);
           wasteTop = last (waste prev);
           nextWaste = (case hold prev of None \<Rightarrow> popped | Some h \<Rightarrow> popped @ [h])
       in evaluateState (prev\<lparr>waste := nextWaste, hold := Some wasteTop, combo := 0,
                               activePowerup := None\<rparr>)))"

definition toggleWrap :: "bool \<Rightarrow> GameState \<Rightarrow> GameState" where
  "toggleWrap enabled prev =
    (if wrapEnabled prev = enabled then prev else prev\<lparr>wrapEnabled := enabled\<rparr>)"

definition togglePowerup :: "Powerup \<Rightarrow> GameState \<Rightarrow> GameState" where
  "togglePowerup powerup prev =
    (if status prev \<noteq> Playing then prev
     else if countOf (powerups prev) powerup \<le> 0 then prev
     else prev\<lparr>activePowerup := (if activePowerup prev = Some powerup then None else Some powerup)\<rparr>)"

text \<open>The transitions of a deal, and the states reachable from a deal by them.\<close>

datatype Action = Click nat | Draw | Hold | ToggleWrap bool | SelectPowerup Powerup

fun transition :: "Action \<Rightarrow> GameState \<Rightarrow> GameState option" where
  "transition (Click slotId) st = handleCardClick slotId st"
| "transition Draw st = drawFromStock st"
| "transition Hold st = useHold st"
| "transition (ToggleWrap enabled) st = Some (toggleWrap enabled st)"
| "transition (SelectPowerup p) st = Some (togglePowerup p st)"

definition run :: "Action list \<Rightarrow> GameState \<Rightarrow> GameState option" where
  "run acts st = fold (\<lambda>a r. Option.bind r (transition a)) acts (Some st)"

inductive reachable :: "seed \<Rightarrow> GameState \<Rightarrow> bool" for sd :: seed where
  reachable_deal: "reachable sd (createGameState sd)"
| reachable_step: "reachable sd st \<Longrightarrow> transition a st = Some st' \<Longrightarrow> reachable sd st'"

definition utf16 :: "string \<Rightarrow> seed" where
  "utf16 s = map (\<lambda>c. word_of_int (of_char c)) s"

text \<open>The cards a state holds: tableau occupants, stock, waste and hold.\<close>

definition tableauCards :: "Slot list \<Rightarrow> Card list" where
  "tableauCards tab = concat (map (\<lambda>slot. case slot_card slot of None \<Rightarrow> [] | Some c \<Rightarrow> [c]) tab)"

definition allCards :: "GameState \<Rightarrow> Card list" where
  "allCards st =
    tableauCards (tableau st) @ stock st @ waste st @ (case hold st of None \<Rightarrow> [] | Some c \<Rightarrow> [c])"

text \<open>
  The kinds of the next \<open>k\<close> powerups in the rotation \<open>POWERUP_ORDER\<close>, starting at the
  cursor \<open>cycleIndex\<close> (the wording of the specification, compared with \<open>grantPowerups\<close>).
\<close>

definition grantedKinds :: "nat \<Rightarrow> nat \<Rightarrow> Powerup list" where
  "grantedKinds cycleIndex k = map (\<lambda>i. POWERUP_ORDER ! ((cycleIndex + i) mod 3)) [0 ..< k]"

text \<open>Sample states used to instantiate the theorems below.\<close>

definition baseState :: GameState where
  "baseState =
    \<lparr>seed = [], tableau = LAYOUT, stock = [], waste = [], hold = None, score = 0, combo = 0,
     powerups = emptyInventory, activePowerup = None, powerupCycle = 0, wrapEnabled = True,
     status = Playing, bonusAwarded = False\<rparr>"




text \<open>
  The stock is used up, the exposed cards (ranks 1, 2, 3) do not match the waste top (rank 9),
  and one wild powerup is left.
\<close>

definition stuckState :: GameState where
  "stuckState =
    baseState\<lparr>tableau := dealTableau createDeck, waste := [mkCard SuitS 9],
              powerups := \<lparr>wild = 1, bomb = 0, rainbow = 0\<rparr>\<rparr>"

section \<open>Properties\<close>

subsection \<open>The layout tables and the deck, evaluated\<close>

lemma LAYOUT_table:
  "LAYOUT =
    [\<lparr>slot_id = 0, slot_row = 0, slot_x = 4, slot_card = None\<rparr>, \<lparr>slot_id = 1, slot_row = 0, slot_x = 10, slot_card = None\<rparr>,
     \<lparr>slot_id = 2, slot_row = 0, slot_x = 16, slot_card = None\<rparr>, \<lparr>slot_id = 3, slot_row = 1, slot_x = 3, slot_card = None\<rparr>,
     \<lparr>slot_id = 4, slot_row = 1, slot_x = 5, slot_card = None\<rparr>, \<lparr>slot_id = 5, slot_row = 1, slot_x = 9, slot_card = None\<rparr>,
     \<lparr>slot_id = 6, slot_row = 1, slot_x = 11, slot_card = None\<rparr>, \<lparr>slot_id = 7, slot_row = 1, slot_x = 15, slot_card = None\<rparr>,
     \<lparr>slot_id = 8, slot_row = 1, slot_x = 17, slot_card = None\<rparr>, \<lparr>slot_id = 9, slot_row = 2, slot_x = 2, slot_card = None\<rparr>,
     \<lparr>slot_id = 10, slot_row = 2, slot_x = 4, slot_card = None\<rparr>, \<lparr>slot_id = 11, slot_row = 2, slot_x = 6, slot_card = None\<rparr>,
     \<lparr>slot_id = 12, slot_row = 2, slot_x = 8, slot_card = None\<rparr>, \<lparr>slot_id = 13, slot_row = 2, slot_x = 10, slot_card = None\<rparr>,
     \<lparr>slot_id = 14, slot_row = 2, slot_x = 12, slot_card = None\<rparr>, \<lparr>slot_id = 15, slot_row = 2, slot_x = 14, slot_card = None\<rparr>,
     \<lparr>slot_id = 16, slot_row = 2, slot_x = 16, slot_card = None\<rparr>, \<lparr>slot_id = 17, slot_row = 2, slot_x = 18, slot_card = None\<rparr>,
     \<lparr>slot_id = 18, slot_row = 3, slot_x = 1, slot_card = None\<rparr>, \<lparr>slot_id = 19, slot_row = 3, slot_x = 3, slot_card = None\<rparr>,
     \<lparr>slot_id = 20, slot_row = 3, slot_x = 5, slot_card = None\<rparr>, \<lparr>slot_id = 21, slot_row = 3, slot_x = 7, slot_card = None\<rparr>,
     \<lparr>slot_id = 22, slot_row = 3, slot_x = 9, slot_card = None\<rparr>, \<lparr>slot_id = 23, slot_row = 3, slot_x = 11, slot_card = None\<rparr>,
     \<lparr>slot_id = 24, slot_row = 3, slot_x = 13, slot_card = None\<rparr>, \<lparr>slot_id = 25, slot_row = 3, slot_x = 15, slot_card = None\<rparr>,
     \<lparr>slot_id = 26, slot_row = 3, slot_x = 17, slot_card = None\<rparr>, \<lparr>slot_id = 27, slot_row = 3, slot_x = 19, slot_card = None\<rparr>]"
  by code_simp

lemma PARENTS_table:
  "PARENTS =
    [(0, []), (1, []), (2, []), (3, [0]), (4, [0]), (5, [1]),
     (6, [1]), (7, [2]), (8, [2]), (9, [3]), (10, [3, 4]), (11, [4]),
     (12, [5]), (13, [5, 6]), (14, [6]), (15, [7]), (16, [7, 8]), (17, [8]),
     (18, [9]), (19, [9, 10]), (20, [10, 11]), (21, [11, 12]), (22, [12, 13]), (23, [13, 14]),
     (24, [14, 15]), (25, [15, 16]), (26, [16, 17]), (27, [17])]"
  by code_simp

lemma ADJACENCY_table:
  "ADJACENCY =
    [(0, [3, 4]), (1, [5, 6]), (2, [7, 8]), (3, [0, 9, 10]), (4, [0, 10, 11]),
     (5, [1, 12, 13]), (6, [1, 13, 14]), (7, [2, 15, 16]), (8, [2, 16, 17]), (9, [3, 18, 19]),
     (10, [3, 4, 19, 20]), (11, [4, 20, 21]), (12, [5, 21, 22]), (13, [5, 6, 22, 23]), (14, [6, 23, 24]),
     (15, [7, 24, 25]), (16, [7, 8, 25, 26]), (17, [8, 26, 27]), (18, [9]), (19, [9, 10]),
     (20, [10, 11]), (21, [11, 12]), (22, [12, 13]), (23, [13, 14]), (24, [14, 15]),
     (25, [15, 16]), (26, [16, 17]), (27, [17])]"
  by code_simp

lemma createDeck_table:
  "createDeck =
    [\<lparr>card_id = ''H1'', rank = 1, suit = SuitH\<rparr>, \<lparr>card_id = ''H2'', rank = 2, suit = SuitH\<rparr>,
     \<lparr>card_id = ''H3'', rank = 3, suit = SuitH\<rparr>, \<lparr>card_id = ''H4'', rank = 4, suit = SuitH\<rparr>,
     \<lparr>card_id = ''H5'', rank = 5, suit = SuitH\<rparr>, \<lparr>card_id = ''H6'', rank = 6, suit = SuitH\<rparr>,
     \<lparr>card_id = ''H7'', rank = 7, suit = SuitH\<rparr>, \<lparr>card_id = ''H8'', rank = 8, suit = SuitH\<rparr>,
     \<lparr>card_id = ''H9'', rank = 9, suit = SuitH\<rparr>, \<lparr>card_id = ''H10'', rank = 10, suit = SuitH\<rparr>,
     \<lparr>card_id = ''H11'', rank = 11, suit = SuitH\<rparr>, \<lparr>card_id = ''H12'', rank = 12, suit = SuitH\<rparr>,
     \<lparr>card_id = ''H13'', rank = 13, suit = SuitH\<rparr>, \<lparr>card_id = ''D1'', rank = 1, suit = SuitD\<rparr>,
     \<lparr>card_id = ''D2'', rank = 2, suit = SuitD\<rparr>, \<lparr>card_id = ''D3'', rank = 3, suit = SuitD\<rparr>,
     \<lparr>card_id = ''D4'', rank = 4, suit = SuitD\<rparr>, \<lparr>card_id = ''D5'', rank = 5, suit = SuitD\<rparr>,
     \<lparr>card_id = ''D6'', rank = 6, suit = SuitD\<rparr>, \<lparr>card_id = ''D7'', rank = 7, suit = SuitD\<rparr>,
     \<lparr>card_id = ''D8'', rank = 8, suit = SuitD\<rparr>, \<lparr>card_id = ''D9'', rank = 9, suit = SuitD\<rparr>,
     \<lparr>card_id = ''D10'', rank = 10, suit = SuitD\<rparr>, \<lparr>card_id = ''D11'', rank = 11, suit = SuitD\<rparr>,
     \<lparr>card_id = ''D12'', rank = 12, suit = SuitD\<rparr>, \<lparr>card_id = ''D13'', rank = 13, suit = SuitD\<rparr>,
     \<lparr>card_id = ''C1'', rank = 1, suit = SuitC\<rparr>, \<lparr>card_id = ''C2'', rank = 2, suit = SuitC\<rparr>,
     \<lparr>card_id = ''C3'', rank = 3, suit = SuitC\<rparr>, \<lparr>card_id = ''C4'', rank = 4, suit = SuitC\<rparr>,
     \<lparr>card_id = ''C5'', rank = 5, suit = SuitC\<rparr>, \<lparr>card_id = ''C6'', rank = 6, suit = SuitC\<rparr>,
     \<lparr>card_id = ''C7'', rank = 7, suit = SuitC\<rparr>, \<lparr>card_id = ''C8'', rank = 8, suit = SuitC\<rparr>,
     \<lparr>card_id = ''C9'', rank = 9, suit = SuitC\<rparr>, \<lparr>card_id = ''C10'', rank = 10, suit = SuitC\<rparr>,
     \<lparr>card_id = ''C11'', rank = 11, suit = SuitC\<rparr>, \<lparr>card_id = ''C12'', rank = 12, suit = SuitC\<rparr>,
     \<lparr>card_id = ''C13'', rank = 13, suit = SuitC\<rparr>, \<lparr>card_id = ''S1'', rank = 1, suit = SuitS\<rparr>,
     \<lparr>card_id = ''S2'', rank = 2, suit = SuitS\<rparr>, \<lparr>card_id = ''S3'', rank = 3, suit = SuitS\<rparr>,
     \<lparr>card_id = ''S4'', rank = 4, suit = SuitS\<rparr>, \<lparr>card_id = ''S5'', rank = 5, suit = SuitS\<rparr>,
     \<lparr>card_id = ''S6'', rank = 6, suit = SuitS\<rparr>, \<lparr>card_id = ''S7'', rank = 7, suit = SuitS\<rparr>,
     \<lparr>card_id = ''S8'', rank = 8, suit = SuitS\<rparr>, \<lparr>card_id = ''S9'', rank = 9, suit = SuitS\<rparr>,
     \<lparr>card_id = ''S10'', rank = 10, suit = SuitS\<rparr>, \<lparr>card_id = ''S11'', rank = 11, suit = SuitS\<rparr>,
     \<lparr>card_id = ''S12'', rank = 12, suit = SuitS\<rparr>, \<lparr>card_id = ''S13'', rank = 13, suit = SuitS\<rparr>]"
  by code_simp

declare LAYOUT_table [code]
declare PARENTS_table [code]
declare ADJACENCY_table [code]
declare createDeck_table [code]

lemma LAYOUT_ids: "map slot_id LAYOUT = [0 ..< 28]"
  by code_simp

lemma length_LAYOUT: "length LAYOUT = 28"
  by (simp add: LAYOUT_table)

lemma length_createDeck: "length createDeck = 52"
  by (simp add: createDeck_table)

lemma distinct_createDeck: "distinct createDeck"
  by code_simp

subsection \<open>Rank adjacency\<close>

text \<open>
  Claim C8. For all ranks \<open>a\<close>, \<open>b\<close> (any integers, so in particular those in 1..13) and
  every wrap flag, \<open>isAdjacentRank a b wrap\<close> holds iff the ranks differ by exactly one, or wrap
  is enabled and the pair is Ace and King. In particular Ace and King are adjacent iff wrap is
  enabled, 5 and 6 are always adjacent, and 5 and 7 never are.
\<close>

theorem isAdjacentRank_iff:
  "(isAdjacentRank a b wrap \<longleftrightarrow> (\<bar>a - b\<bar> = 1 \<or> (wrap \<and> {a, b} = {1, 13})))
   \<and> (isAdjacentRank 1 13 wrap \<longleftrightarrow> wrap)
   \<and> isAdjacentRank 5 6 wrap
   \<and> \<not> isAdjacentRank 5 7 wrap"
  by (auto simp: isAdjacentRank_def doubleton_eq_iff)

subsection \<open>Clearing cards: score and combo\<close>

lemma floor_third: "\<lfloor>real c / 3\<rfloor> = int (c div 3)"
  using floor_divide_of_nat_eq [of c 3] by simp

lemma getComboMultiplier_div:
  "getComboMultiplier c = (if c = 0 then 1 else 1 + min (real (c div 3) * 0.5) 2)"
  by (simp add: getComboMultiplier_def floor_third Let_def)

lemma getComboMultiplier_range: "getComboMultiplier c \<in> {1, 1.5, 2, 2.5, 3}"
proof -
  consider "c div 3 = 0" | "c div 3 = 1" | "c div 3 = 2" | "c div 3 = 3" | "4 \<le> c div 3"
    by linarith
  then show ?thesis
    by cases (auto simp: getComboMultiplier_div min_def)
qed

text \<open>The state that \<open>applyClear\<close> returns when a card is played, field by field.\<close>

lemma applyClear_state:
  "state (applyClear prev ids (Some wc) spent) =
     prev\<lparr>tableau := map (\<lambda>slot. if slot_id slot \<in> set ids then slot\<lparr>slot_card := None\<rparr> else slot)
                       (tableau prev),
          waste := waste prev @ [wc],
          combo := combo prev + length ids,
          score := score prev
            + mathRound (real (length ids) * real BASE_POINTS * getComboMultiplier (combo prev + length ids)),
          powerups := fst (grantPowerups (combo prev) (combo prev + length ids)
             (spendPowerup spent (powerups prev)) (powerupCycle prev)),
          powerupCycle := snd (grantPowerups (combo prev) (combo prev + length ids)
             (spendPowerup spent (powerups prev)) (powerupCycle prev)),
          activePowerup := None\<rparr>"
  by (simp add: applyClear_def Let_def split: prod.split)

text \<open>\<open>Math.round\<close> leaves an integer as it is and rounds a half upwards.\<close>

lemma mathRound_of_int: "mathRound (real_of_int k) = k"
  unfolding mathRound_def by linarith

lemma mathRound_half_up: "mathRound (real_of_int k + 1 / 2) = k + 1"
  unfolding mathRound_def by linarith

lemma getComboMultiplier_closed: "getComboMultiplier c = real (2 + min (c div 3) 4) / 2"
  by (auto simp: getComboMultiplier_div min_def)

lemma scoreGain_closed:
  "mathRound (real n * real BASE_POINTS * getComboMultiplier c) = int (n * 50 * (2 + min (c div 3) 4))"
proof -
  have "real n * real BASE_POINTS * getComboMultiplier c = real_of_int (int (n * 50 * (2 + min (c div 3) 4)))"
    by (simp add: getComboMultiplier_closed BASE_POINTS_def algebra_simps)
  then show ?thesis
    by (simp only: mathRound_of_int)
qed

text \<open>
  Claim C6. A clear of the ids \<open>clearedIds\<close> that plays the card \<open>wc\<close> raises the score by
  \<open>round(n * BASE_POINTS * multiplier(newCombo))\<close>, where \<open>n\<close> is the number of cleared ids and
  \<open>newCombo = oldCombo + n\<close>; \<open>BASE_POINTS\<close> is 100; the multiplier of a combo \<open>c\<close> is
  \<open>1 + min(floor(c / 3) * 0.5, 2)\<close> for \<open>c > 0\<close> and 1 otherwise, so it is one of
  1, 1.5, 2, 2.5, 3 and never exceeds 3. The product is a whole number, so the rounding
  leaves it as it is: the gain is \<open>n * 50 * (2 + min(newCombo div 3, 4))\<close> points.
\<close>

theorem applyClear_score:
  "score (state (applyClear prev clearedIds (Some wc) spent)) =
     score prev + mathRound (real (length clearedIds) * real BASE_POINTS
                              * getComboMultiplier (combo prev + length clearedIds))
   \<and> score (state (applyClear prev clearedIds (Some wc) spent)) =
     score prev + int (length clearedIds * 50 * (2 + min ((combo prev + length clearedIds) div 3) 4))
   \<and> mathRound (real_of_int k) = k
   \<and> mathRound (real_of_int k + 1 / 2) = k + 1
   \<and> combo (state (applyClear prev clearedIds (Some wc) spent)) = combo prev + length clearedIds
   \<and> BASE_POINTS = 100
   \<and> getComboMultiplier c = (if c > 0 then 1 + min (real_of_int \<lfloor>real c / 3\<rfloor> * 0.5) 2 else 1)
   \<and> getComboMultiplier c \<in> {1, 1.5, 2, 2.5, 3}
   \<and> getComboMultiplier c \<le> 3"
proof -
  have "getComboMultiplier c \<le> 3"
    using getComboMultiplier_range [of c] by auto
  moreover have "getComboMultiplier c = (if c > 0 then 1 + min (real_of_int \<lfloor>real c / 3\<rfloor> * 0.5) 2 else 1)"
    by (simp add: getComboMultiplier_def Let_def)
  moreover have "score (state (applyClear prev clearedIds (Some wc) spent)) =
     score prev + mathRound (real (length clearedIds) * real BASE_POINTS
                              * getComboMultiplier (combo prev + length clearedIds))"
    by (simp add: applyClear_state)
  moreover have "combo (state (applyClear prev clearedIds (Some wc) spent)) = combo prev + length clearedIds"
    by (simp add: applyClear_state)
  ultimately show ?thesis
    using getComboMultiplier_range [of c] mathRound_of_int [of k] mathRound_half_up [of k]
      scoreGain_closed [of "length clearedIds" "combo prev + length clearedIds"]
    by (simp add: BASE_POINTS_def)
qed

subsection \<open>Powerup grants\<close>

lemma grantedKinds_Suc:
  "grantedKinds cyc (Suc k) = POWERUP_ORDER ! (cyc mod 3) # grantedKinds (Suc cyc) k"
  unfolding grantedKinds_def
  by (simp only: upt_conv_Cons [of 0 "Suc k"] map_Suc_upt [symmetric] list.map map_map comp_def) simp

lemma grantedKinds_1: "grantedKinds cyc (Suc 0) = [POWERUP_ORDER ! (cyc mod 3)]"
  by (simp add: grantedKinds_def)

lemma grantedKinds_2:
  "grantedKinds cyc (Suc (Suc 0)) = [POWERUP_ORDER ! (cyc mod 3), POWERUP_ORDER ! (Suc cyc mod 3)]"
  by (simp add: grantedKinds_def)

text \<open>The loop of \<open>grantPowerups\<close> over any list of combo values.\<close>

lemma fold_grantStep:
  "fold grantStep cs (ivt, cyc) =
     (fold addPowerup (grantedKinds cyc (length (filter (\<lambda>c. c mod 3 = 0) cs))) ivt,
      cyc + length (filter (\<lambda>c. c mod 3 = 0) cs))"
proof (induction cs arbitrary: ivt cyc)
  case Nil
  then show ?case by (simp add: grantedKinds_def)
next
  case (Cons c cs)
  show ?case
  proof (cases "c mod 3 = 0")
    case True
    then show ?thesis
      using Cons.IH [of "addPowerup (POWERUP_ORDER ! (cyc mod 3)) ivt" "Suc cyc"]
      by (simp add: grantStep_def grantedKinds_Suc POWERUP_ORDER_def Let_def)
  next
    case False
    then show ?thesis
      using Cons.IH [of ivt cyc] by (simp add: grantStep_def)
  qed
qed

lemma div3_step: "Suc m div 3 = m div 3 + (if Suc m mod 3 = 0 then 1 else 0)"
  by presburger

lemma multiples_of_3_between:
  "length (filter (\<lambda>c. c mod 3 = 0) [a + 1 ..< a + n + 1]) = (a + n) div 3 - a div 3"
proof (induction n)
  case 0
  then show ?case by simp
next
  case (Suc n)
  have le: "a div 3 \<le> (a + n) div 3"
    by (simp add: div_le_mono)
  have "length (filter (\<lambda>c. c mod 3 = 0) [a + 1 ..< a + Suc n + 1])
      = length (filter (\<lambda>c. c mod 3 = 0) [a + 1 ..< a + n + 1]) + (if Suc (a + n) mod 3 = 0 then 1 else 0)"
    by simp
  also have "\<dots> = ((a + n) div 3 - a div 3) + (if Suc (a + n) mod 3 = 0 then 1 else 0)"
    using Suc.IH by simp
  also have "\<dots> = Suc (a + n) div 3 - a div 3"
    using le div3_step [of "a + n"] by simp
  finally show ?case by simp
qed

lemma grantPowerups_eq:
  "grantPowerups old (old + n) ivt cyc =
     (fold addPowerup (grantedKinds cyc ((old + n) div 3 - old div 3)) ivt,
      cyc + ((old + n) div 3 - old div 3))"
  unfolding grantPowerups_def fold_grantStep multiples_of_3_between ..

lemma countOf_addPowerup: "countOf (addPowerup q ivt) p = countOf ivt p + (if q = p then 1 else 0)"
  by (cases q; cases p) (simp_all add: addPowerup_def countOf_def setCount_def)

lemma countOf_fold_addPowerup: "countOf (fold addPowerup ps ivt) p = countOf ivt p + count_list ps p"
  by (induction ps arbitrary: ivt) (simp_all add: countOf_addPowerup)

text \<open>
  Claim C5. A clear that takes the combo from \<open>old\<close> to \<open>new = old + n\<close> grants one powerup
  for each multiple of 3 among \<open>old + 1, \<dots>, new\<close>; there are \<open>k = new div 3 - old div 3\<close> of
  them. The granted kinds are the next \<open>k\<close> entries of the rotation wild, bomb, rainbow from
  the cursor \<open>powerupCycle\<close>, each adding one unit to the inventory left after the spent
  powerup was deducted, and the cursor advances by \<open>k\<close>. From combo 0, three cleared cards
  grant exactly one powerup and six grant exactly two, in rotation order.
\<close>

theorem applyClear_grants:
  "(let old = combo prev;
        new = combo prev + length clearedIds;
        k = length (filter (\<lambda>c. c mod 3 = 0) [old + 1 ..< new + 1]);
        st' = state (applyClear prev clearedIds (Some wc) spent)
    in k = new div 3 - old div 3
       \<and> powerupCycle st' = powerupCycle prev + k
       \<and> powerups st' = fold addPowerup (grantedKinds (powerupCycle prev) k) (spendPowerup spent (powerups prev))
       \<and> countOf (powerups st') p
           = countOf (spendPowerup spent (powerups prev)) p + count_list (grantedKinds (powerupCycle prev) k) p)
   \<and> POWERUP_ORDER = [Wild, Bomb, Rainbow]
   \<and> grantPowerups 0 3 ivt cyc = (addPowerup (POWERUP_ORDER ! (cyc mod 3)) ivt, cyc + 1)
   \<and> grantPowerups 0 6 ivt cyc =
       (addPowerup (POWERUP_ORDER ! ((cyc + 1) mod 3)) (addPowerup (POWERUP_ORDER ! (cyc mod 3)) ivt), cyc + 2)"
proof -
  have g3: "grantPowerups 0 3 ivt cyc = (addPowerup (POWERUP_ORDER ! (cyc mod 3)) ivt, cyc + 1)"
    using grantPowerups_eq [of 0 3 ivt cyc] by (simp add: grantedKinds_1)
  have g6: "grantPowerups 0 6 ivt cyc =
       (addPowerup (POWERUP_ORDER ! ((cyc + 1) mod 3)) (addPowerup (POWERUP_ORDER ! (cyc mod 3)) ivt), cyc + 2)"
    using grantPowerups_eq [of 0 6 ivt cyc] by (simp add: grantedKinds_2 numeral_2_eq_2)
  let ?k = "length (filter (\<lambda>c. c mod 3 = 0) [combo prev + 1 ..< combo prev + length clearedIds + 1])"
  let ?st' = "state (applyClear prev clearedIds (Some wc) spent)"
  have k: "?k = (combo prev + length clearedIds) div 3 - combo prev div 3"
    by (rule multiples_of_3_between)
  have gp: "grantPowerups (combo prev) (combo prev + length clearedIds) (spendPowerup spent (powerups prev))
              (powerupCycle prev)
            = (fold addPowerup (grantedKinds (powerupCycle prev) ?k) (spendPowerup spent (powerups prev)),
               powerupCycle prev + ?k)"
    unfolding k by (rule grantPowerups_eq)
  have cyc: "powerupCycle ?st' = powerupCycle prev + ?k"
    using gp by (simp add: applyClear_state del: upt_Suc)
  have pw: "powerups ?st' = fold addPowerup (grantedKinds (powerupCycle prev) ?k) (spendPowerup spent (powerups prev))"
    using gp by (simp add: applyClear_state del: upt_Suc)
  have cnt: "countOf (powerups ?st') p
           = countOf (spendPowerup spent (powerups prev)) p + count_list (grantedKinds (powerupCycle prev) ?k) p"
    unfolding pw by (rule countOf_fold_addPowerup)
  have po: "POWERUP_ORDER = [Wild, Bomb, Rainbow]"
    by (rule POWERUP_ORDER_def)
  show ?thesis
    unfolding Let_def using k cyc pw cnt po g3 g6 by blast
qed

subsection \<open>Terminal conditions\<close>

lemma evaluateState_not_playing: "status st \<noteq> Playing \<Longrightarrow> evaluateState st = Some st"
  by (simp add: evaluateState_def)

lemma evaluateState_cleared:
  "status st = Playing \<Longrightarrow> tableauCleared (tableau st) \<Longrightarrow>
   evaluateState st =
     Some (if \<not> bonusAwarded st
           then st\<lparr>score := score st + int (length (stock st) * STOCK_BONUS), status := Won, bonusAwarded := True\<rparr>
           else st\<lparr>status := Won\<rparr>)"
  by (simp add: evaluateState_def)

lemma evaluateState_uncleared:
  assumes "status st = Playing" and "\<not> tableauCleared (tableau st)"
    and "evaluateState st = Some st'"
  shows "st' = st \<or> st' = st\<lparr>status := Lost\<rparr>"
  using assms
  by (auto simp: evaluateState_def Let_def split: if_splits bind_splits)

lemma evaluateState_result:
  assumes "evaluateState st = Some st'"
  shows "st' = st \<or> status st' \<noteq> Playing"
proof (cases "status st = Playing")
  case False
  then show ?thesis using assms by (simp add: evaluateState_not_playing)
next
  case True
  show ?thesis
  proof (cases "tableauCleared (tableau st)")
    case True
    with \<open>status st = Playing\<close> assms show ?thesis
      by (auto simp: evaluateState_cleared split: if_splits)
  next
    case False
    with \<open>status st = Playing\<close> assms evaluateState_uncleared [of st st'] show ?thesis
      by auto
  qed
qed

lemma evaluateState_fixed:
  assumes "evaluateState st = Some st'"
  shows "evaluateState st' = Some st'"
proof -
  have "st' = st \<or> status st' \<noteq> Playing"
    using assms by (rule evaluateState_result)
  then show ?thesis
    using assms by (auto simp: evaluateState_not_playing)
qed

text \<open>
  Claim C9. The terminal-condition evaluator is idempotent: evaluating the result of an
  evaluation gives that result again, score included. A call of \<open>evaluateState\<close> can throw
  (on a tableau with a slot id unknown to \<open>PARENTS\<close>); composing the two calls in the error
  monad, the composition throws exactly when the single call does.
\<close>

theorem evaluateState_idempotent:
  "Option.bind (evaluateState st) evaluateState = evaluateState st"
proof (cases "evaluateState st")
  case None
  then show ?thesis by simp
next
  case (Some st')
  then have "evaluateState st' = Some st'"
    by (rule evaluateState_fixed)
  then show ?thesis
    using Some by simp
qed

theorem evaluateState_idempotent_witness:
  "evaluateState stuckState = Some stuckState
   \<and> Option.bind (evaluateState stuckState) evaluateState = Some stuckState"
proof -
  have ev: "evaluateState stuckState = Some stuckState"
    by code_simp
  show ?thesis
    using evaluateState_idempotent [of stuckState] ev by simp
qed






subsection \<open>The deal\<close>

text \<open>The index drawn by the shuffle at position \<open>i\<close> lies in \<open>0..i\<close>.\<close>

lemma floorScaled_less:
  assumes "0 \<le> u" and "u < 4294967296" and "0 < n"
  shows "floorScaled u n < n"
proof -
  define p where "p = u * int n"
  have "p < 4294967296 * int n"
    unfolding p_def using assms by (simp add: mult_strict_right_mono)
  moreover have "0 \<le> p"
    unfolding p_def using assms by simp
  ultimately have "0 \<le> p div 4294967296 \<and> p div 4294967296 < int n"
    by arith
  then show ?thesis
    unfolding floorScaled_def p_def by linarith
qed

lemma mulberry32_range: "0 \<le> fst (mulberry32 a) \<and> fst (mulberry32 a) < 4294967296"
proof -
  have "uint w < 4294967296" for w :: "32 word"
    using uint_bounded [of w] by simp
  then show ?thesis
    by (simp add: mulberry32_def Let_def)
qed

lemma shuffleStep_length: "length (fst (shuffleStep i st)) = length (fst st)"
  by (simp add: shuffleStep_def Let_def)

lemma shuffleStep_mset:
  assumes "i < length (fst st)"
  shows "mset (fst (shuffleStep i st)) = mset (fst st)"
proof -
  let ?j = "floorScaled (fst (mulberry32 (snd st))) (i + 1)"
  have "?j < i + 1"
    using mulberry32_range [of "snd st"] by (intro floorScaled_less) auto
  then have "?j < length (fst st)"
    using assms by simp
  then show ?thesis
    using assms mset_swap [of ?j "fst st" i]
    by (simp add: shuffleStep_def Let_def)
qed

lemma shuffleFrom_length: "length (fst (shuffleFrom k st)) = length (fst st)"
  by (induction k arbitrary: st) (simp_all add: shuffleStep_length)

lemma shuffleFrom_mset: "k < length (fst st) \<Longrightarrow> mset (fst (shuffleFrom k st)) = mset (fst st)"
proof (induction k arbitrary: st)
  case 0
  then show ?case by simp
next
  case (Suc k)
  have "mset (fst (shuffleFrom k (shuffleStep (Suc k) st))) = mset (fst (shuffleStep (Suc k) st))"
    using Suc.prems by (intro Suc.IH) (simp add: shuffleStep_length)
  then show ?case
    using Suc.prems by (simp add: shuffleStep_mset)
qed

lemma length_shuffle: "length (shuffle deck a) = length deck"
  by (simp add: shuffle_def shuffleFrom_length)

lemma mset_shuffle: "mset (shuffle deck a) = mset deck"
proof (cases "deck = []")
  case True
  then show ?thesis by (simp add: shuffle_def)
next
  case False
  then show ?thesis
    by (simp add: shuffle_def shuffleFrom_mset)
qed


lemma length_dealTableau: "length (dealTableau deck) = 28"
  by (simp add: dealTableau_def length_LAYOUT)

lemma dealTableau_nth:
  "i < 28 \<Longrightarrow> dealTableau deck ! i
     = (LAYOUT ! i)\<lparr>slot_card := (if i < length deck then Some (deck ! i) else None)\<rparr>"
  by (simp add: dealTableau_def nth_enumerate_eq length_LAYOUT)

lemma dealTableau_ids: "map slot_id (dealTableau deck) = map slot_id LAYOUT"
  by (simp add: list_eq_iff_nth_eq length_dealTableau length_LAYOUT dealTableau_nth)

lemma LAYOUT_no_cards: "slot \<in> set LAYOUT \<Longrightarrow> slot\<lparr>slot_card := None\<rparr> = slot"
  by (auto simp: LAYOUT_table)

lemma dealTableau_layout: "map (\<lambda>slot. slot\<lparr>slot_card := None\<rparr>) (dealTableau deck) = LAYOUT"
  by (simp add: list_eq_iff_nth_eq length_dealTableau length_LAYOUT dealTableau_nth LAYOUT_no_cards)

lemma dealTableau_cards:
  assumes "28 \<le> length deck"
  shows "map slot_card (dealTableau deck) = map Some (take 28 deck)"
  using assms by (simp add: list_eq_iff_nth_eq length_dealTableau dealTableau_nth)

lemma length_deal_deck: "length (shuffle createDeck a) = 52"
  by (simp add: length_shuffle length_createDeck)

lemma createGameState_fields:
  "tableau (createGameState sd) = dealTableau (shuffle createDeck (createRng sd))"
  "stock (createGameState sd) = butlast (drop 28 (shuffle createDeck (createRng sd)))"
  "waste (createGameState sd) = [last (shuffle createDeck (createRng sd))]"
  "hold (createGameState sd) = None"
  "status (createGameState sd) = Playing"
  "bonusAwarded (createGameState sd) = False"
  by (simp_all add: createGameState_def Let_def length_dealTableau length_deal_deck split: prod.split)

lemma createGameState_stock_length: "length (stock (createGameState sd)) = 23"
  by (simp add: createGameState_fields length_deal_deck)

text \<open>
  Claim C2, amended. For every seed, with \<open>deck\<close> the shuffled deck: the tableau is the
  layout with the first 28 cards of \<open>deck\<close> at positions 0..27 in order; the stock holds the
  next 23 cards in shuffle order (the 24 remaining cards without the last one); the waste
  holds exactly the last card of \<open>deck\<close>, the popped stock top.
\<close>

theorem createGameState_deal:
  "(let deck = shuffle createDeck (createRng sd); st = createGameState sd
    in length deck = 52
     \<and> map slot_card (tableau st) = map Some (take 28 deck)
     \<and> map (\<lambda>slot. slot\<lparr>slot_card := None\<rparr>) (tableau st) = LAYOUT
     \<and> length (tableau st) = 28
     \<and> stock st = take 23 (drop 28 deck)
     \<and> length (stock st) = 23
     \<and> waste st = [deck ! 51]
     \<and> hold st = None)"
proof -
  let ?deck = "shuffle createDeck (createRng sd)"
  have len: "length ?deck = 52"
    by (rule length_deal_deck)
  have "butlast (drop 28 ?deck) = take 23 (drop 28 ?deck)"
    using len by (simp add: butlast_conv_take)
  moreover have "last ?deck = ?deck ! 51"
  proof -
    have "?deck \<noteq> []" using len by auto
    then have "last ?deck = ?deck ! (length ?deck - 1)"
      by (rule last_conv_nth)
    then show ?thesis using len by simp
  qed
  ultimately show ?thesis
    using len
    by (simp add: Let_def createGameState_fields dealTableau_cards dealTableau_layout length_dealTableau)
qed

text \<open>
  Claim C2, as stated, fails: the stock of a fresh deal holds 23 cards, not 24
  (52 cards, 28 on the tableau, one popped to the waste).
\<close>

theorem createGameState_stock_counterexample:
  "length (stock (createGameState (utf16 ''candy''))) = 23
   \<and> length (stock (createGameState (utf16 ''candy''))) \<noteq> 24"
  by (simp add: createGameState_stock_length)



end
